theory Spec2Isabelle
  imports Complex_Main
begin

section \<open>Projectile motion: the physics engine, the projectile and the predictor\<close>

text \<open>
  The development follows the physics core of the simulator: class \<open>PhysicsEngine\<close>
  (closed-form kinematics, drag and wind forces, one Euler step), class \<open>Projectile\<close>
  (\<open>reset\<close>, \<open>launch\<close>, \<open>update\<close>) and the predictor's \<open>calculateTrajectory\<close>.

  JavaScript numbers are modelled as real numbers: the arithmetic of the source is
  kept operation for operation, while rounding, infinities and NaN are outside the
  model. Objects are records, an assignment to a field is a record update, and a method
  takes the object it is called on as an argument and returns the changed object.
\<close>

subsection \<open>PhysicsEngine\<close>

record Force =
  fx :: real
  fy :: real

record PhysicsEngine =
  AIR_DENSITY :: real
  DRAG_COEFFICIENT :: real
  dt :: real

text \<open>The constructor of \<open>PhysicsEngine\<close>: two physical constants and the time step.\<close>

definition new_PhysicsEngine :: PhysicsEngine where
  "new_PhysicsEngine = \<lparr>AIR_DENSITY = 1.225, DRAG_COEFFICIENT = 0.47, dt = 0.016\<rparr>"

text \<open>
  \<open>calculateDragForce(vx, vy, diameter)\<close>. Both components are conditional
  expressions on \<open>v > 0\<close>; the division by \<open>v\<close> stands in the first branch only.
\<close>

definition calculateDragForce :: "PhysicsEngine \<Rightarrow> real \<Rightarrow> real \<Rightarrow> real \<Rightarrow> Force" where
  "calculateDragForce this vx vy diameter =
     (let v = sqrt (vx * vx + vy * vy);
          area = pi * (diameter / 2) ^ 2;
          dragMagnitude = 0.5 * AIR_DENSITY this * v * v * DRAG_COEFFICIENT this * area
      in \<lparr>fx = (if v > 0 then - dragMagnitude * (vx / v) else 0),
          fy = (if v > 0 then - dragMagnitude * (vy / v) else 0)\<rparr>)"

text \<open>
  The same method with the division made partial: \<open>divide_checked\<close> has no result
  for a zero divisor (where JavaScript yields an infinity or NaN, which is not a real
  number), and a component of the force is \<open>None\<close> as soon as such a division is
  evaluated. HOL's own division is total (\<open>a / 0 = 0\<close>) and cannot show this.
\<close>

definition divide_checked :: "real \<Rightarrow> real \<Rightarrow> real option" where
  "divide_checked a b = (if b = 0 then None else Some (a / b))"

definition calculateDragForce_checked ::
  "PhysicsEngine \<Rightarrow> real \<Rightarrow> real \<Rightarrow> real \<Rightarrow> (real option \<times> real option)" where
  "calculateDragForce_checked this vx vy diameter =
     (let v = sqrt (vx * vx + vy * vy);
          area = pi * (diameter / 2) ^ 2;
          dragMagnitude = 0.5 * AIR_DENSITY this * v * v * DRAG_COEFFICIENT this * area
      in ((if v > 0 then map_option (\<lambda>q. - dragMagnitude * q) (divide_checked vx v) else Some 0),
          (if v > 0 then map_option (\<lambda>q. - dragMagnitude * q) (divide_checked vy v) else Some 0)))"

text \<open>\<open>calculateWindForce(windSpeed, diameter)\<close>: a horizontal force only.\<close>

definition calculateWindForce :: "PhysicsEngine \<Rightarrow> real \<Rightarrow> real \<Rightarrow> Force" where
  "calculateWindForce this windSpeed diameter =
     (let area = pi * (diameter / 2) ^ 2;
          windForce = 0.5 * AIR_DENSITY this * windSpeed * \<bar>windSpeed\<bar> *
                      DRAG_COEFFICIENT this * area
      in \<lparr>fx = windForce, fy = 0\<rparr>)"

text \<open>
  A trajectory sample \<open>{x, y}\<close> and a kinematic state \<open>{x, y, vx, vy}\<close>: the state
  extends the sample by the velocity.
\<close>

record Point =
  x :: real
  y :: real

record State = Point +
  vx :: real
  vy :: real

text \<open>\<open>calculateNoAirResistance(v0, angle, g, t)\<close>: the closed form, angle in degrees.\<close>

definition calculateNoAirResistance :: "real \<Rightarrow> real \<Rightarrow> real \<Rightarrow> real \<Rightarrow> State" where
  "calculateNoAirResistance v0 angle g t =
     (let rad = angle * pi / 180;
          v0x = v0 * cos rad;
          v0y = v0 * sin rad
      in \<lparr>x = v0x * t,
          y = v0y * t - 0.5 * g * t * t,
          vx = v0x,
          vy = v0y - g * t\<rparr>)"

text \<open>
  \<open>integrateStep(state, mass, diameter, g, airResistance, windSpeed = 0)\<close>: the
  acceleration is built up in \<open>ax\<close>, \<open>ay\<close> by the two conditionals of the source, then
  one explicit Euler step with the engine's \<open>dt\<close>.
\<close>

definition integrateStep ::
  "PhysicsEngine \<Rightarrow> State \<Rightarrow> real \<Rightarrow> real \<Rightarrow> real \<Rightarrow> bool \<Rightarrow> real \<Rightarrow> State" where
  "integrateStep this state mass diameter g airResistance windSpeed =
     (let ax0 = 0;
          ay0 = - g;
          (ax1, ay1) =
            (if airResistance
             then (let drag = calculateDragForce this (vx state) (vy state) diameter
                   in (ax0 + fx drag / mass, ay0 + fy drag / mass))
             else (ax0, ay0));
          ax2 =
            (if windSpeed \<noteq> 0
             then (let wind = calculateWindForce this windSpeed diameter
                   in ax1 + fx wind / mass)
             else ax1)
      in \<lparr>x = x state + vx state * dt this,
          y = y state + vy state * dt this,
          vx = vx state + ax2 * dt this,
          vy = vy state + ay1 * dt this\<rparr>)"

text \<open>The three closed-form read-outs of the engine.\<close>

definition calculateMaxRange :: "real \<Rightarrow> real \<Rightarrow> real \<Rightarrow> real" where
  "calculateMaxRange v0 angle g = (let rad = angle * pi / 180 in (v0 * v0 * sin (2 * rad)) / g)"

definition calculateMaxHeight :: "real \<Rightarrow> real \<Rightarrow> real \<Rightarrow> real" where
  "calculateMaxHeight v0 angle g =
     (let rad = angle * pi / 180; v0y = v0 * sin rad in (v0y * v0y) / (2 * g))"

definition calculateFlightTime :: "real \<Rightarrow> real \<Rightarrow> real \<Rightarrow> real" where
  "calculateFlightTime v0 angle g =
     (let rad = angle * pi / 180; v0y = v0 * sin rad in (2 * v0y) / g)"

subsection \<open>The predictor's calculateTrajectory\<close>

text \<open>
  The parameter object read by \<open>calculateTrajectory\<close> (the application's parameters).
\<close>

record PredictionParams =
  pp_velocity :: real
  pp_angle :: real
  pp_mass :: real
  pp_diameter :: real
  pp_gravity :: real
  pp_airResistance :: bool
  pp_windSpeed :: real
  pp_windEnabled :: bool

text \<open>The two local constants of \<open>calculateTrajectory\<close>: \<open>dt = 0.05\<close> and \<open>maxTime = 30\<close>.\<close>

definition predict_dt :: real where
  "predict_dt = 0.05"

definition maxTime :: real where
  "maxTime = 30"

text \<open>
  The \<open>for\<close> loop of \<open>calculateTrajectory\<close>, with its three loop-carried variables:
  the time \<open>t\<close>, the local \<open>state\<close> and the list \<open>points\<close>. Each round appends the
  current position, leaves by \<open>break\<close> when that position is below ground after the
  guard time, and otherwise computes the next local state and adds the sub-step to \<open>t\<close>.
\<close>

function calculateTrajectory_loop ::
  "PhysicsEngine \<Rightarrow> PredictionParams \<Rightarrow> real \<Rightarrow> State \<Rightarrow> Point list \<Rightarrow> Point list" where
  "calculateTrajectory_loop physics params t state points =
     (if t < maxTime
      then (let points' = points @ [\<lparr>x = x state, y = y state\<rparr>]
            in if y state < 0 \<and> t > 0.01 then points'
               else (let state' =
                           (if pp_airResistance params \<or>
                               (pp_windEnabled params \<and> pp_windSpeed params \<noteq> 0)
                            then integrateStep physics state (pp_mass params)
                                   (pp_diameter params) (pp_gravity params)
                                   (pp_airResistance params)
                                   (if pp_windEnabled params then pp_windSpeed params else 0)
                            else calculateNoAirResistance (pp_velocity params)
                                   (pp_angle params) (pp_gravity params) t)
                     in calculateTrajectory_loop physics params (t + predict_dt) state' points'))
      else points)"
  by pat_completeness auto
termination
proof (relation "measure (\<lambda>(physics, params, t, state, points). nat \<lceil>(maxTime - t) / predict_dt\<rceil>)")
  show "wf (measure (\<lambda>(physics :: PhysicsEngine, params :: PredictionParams, t, state :: State,
                        points :: Point list). nat \<lceil>(maxTime - t) / predict_dt\<rceil>))"
    by simp
next
  fix physics :: PhysicsEngine and params :: PredictionParams and t :: real
    and state :: State and points points' :: "Point list" and state' :: State
  assume less: "t < maxTime"
  have shift: "(maxTime - (t + predict_dt)) / predict_dt = (maxTime - t) / predict_dt - 1"
    by (simp add: predict_dt_def field_simps)
  have "0 < (maxTime - t) / predict_dt"
    using less by (simp add: predict_dt_def)
  then have "0 < \<lceil>(maxTime - t) / predict_dt\<rceil>"
    by simp
  then have "nat \<lceil>(maxTime - (t + predict_dt)) / predict_dt\<rceil> < nat \<lceil>(maxTime - t) / predict_dt\<rceil>"
    unfolding shift by simp
  then show "((physics, params, t + predict_dt, state', points'),
              (physics, params, t, state, points))
             \<in> measure (\<lambda>(physics, params, t, state, points). nat \<lceil>(maxTime - t) / predict_dt\<rceil>)"
    by simp
qed

declare calculateTrajectory_loop.simps [simp del]

definition calculateTrajectory :: "PhysicsEngine \<Rightarrow> PredictionParams \<Rightarrow> Point list" where
  "calculateTrajectory physics params =
     calculateTrajectory_loop physics params 0
       \<lparr>x = 0, y = 0,
        vx = pp_velocity params * cos (pp_angle params * pi / 180),
        vy = pp_velocity params * sin (pp_angle params * pi / 180)\<rparr>
       []"

subsection \<open>Projectile\<close>

text \<open>
  The parameter object of the constructor. \<open>windSpeed\<close> may be absent
  (\<open>undefined\<close>), which is \<open>None\<close> here; the colour is presentation only and is left out.
\<close>

record ProjectileParams =
  p_velocity :: real
  p_angle :: real
  p_mass :: real
  p_diameter :: real
  p_gravity :: real
  p_airResistance :: bool
  p_windSpeed :: "real option"

text \<open>
  The fields of a \<open>Projectile\<close>. The field \<open>range\<close> of the source is \<open>range_m\<close> here.
\<close>

record Projectile =
  v0 :: real
  angle :: real
  mass :: real
  diameter :: real
  gravity :: real
  airResistance :: bool
  windSpeed :: real
  state :: State
  time :: real
  isFlying :: bool
  hasLanded :: bool
  trajectory :: "Point list"
  maxHeight :: real
  range_m :: real
  physics :: PhysicsEngine
  maxTrajectoryPoints :: nat

text \<open>\<open>reset()\<close>: back to the launch point, at rest in the state machine.\<close>

definition reset :: "Projectile \<Rightarrow> Projectile" where
  "reset this =
     (let rad = angle this * pi / 180
      in this\<lparr>state := \<lparr>x = 0, y = 0, vx = v0 this * cos rad, vy = v0 this * sin rad\<rparr>,
              time := 0,
              isFlying := False,
              hasLanded := False,
              trajectory := [],
              maxHeight := 0,
              range_m := 0\<rparr>)"

text \<open>
  The constructor copies the parameters (\<open>params.windSpeed || 0\<close> is \<open>0\<close> for an absent
  wind speed), calls \<open>reset()\<close>, and only then sets \<open>physics\<close>, \<open>trajectory\<close> and
  \<open>maxTrajectoryPoints\<close>. The fields that \<open>reset()\<close> and these last assignments
  overwrite are undefined before; the record needs some value there and none of them is
  ever read.
\<close>

definition new_Projectile :: "ProjectileParams \<Rightarrow> Projectile" where
  "new_Projectile params =
     (reset \<lparr>v0 = p_velocity params,
             angle = p_angle params,
             mass = p_mass params,
             diameter = p_diameter params,
             gravity = p_gravity params,
             airResistance = p_airResistance params,
             windSpeed = (case p_windSpeed params of None \<Rightarrow> 0 | Some w \<Rightarrow> w),
             state = \<lparr>x = 0, y = 0, vx = 0, vy = 0\<rparr>,
             time = 0,
             isFlying = False,
             hasLanded = False,
             trajectory = [],
             maxHeight = 0,
             range_m = 0,
             physics = new_PhysicsEngine,
             maxTrajectoryPoints = 0\<rparr>)
       \<lparr>physics := new_PhysicsEngine, trajectory := [], maxTrajectoryPoints := 500\<rparr>"

text \<open>\<open>launch()\<close>.\<close>

definition launch :: "Projectile \<Rightarrow> Projectile" where
  "launch this = (reset this)\<lparr>isFlying := True\<rparr>"

text \<open>
  The physics branch of \<open>update()\<close> (the \<open>if\<close>/\<open>else\<close> under "Update physics"): the
  state that the tick assigns to \<open>this.state\<close>, computed from the fields before the tick.
\<close>

definition nextState :: "Projectile \<Rightarrow> State" where
  "nextState this =
     (if airResistance this \<or> windSpeed this \<noteq> 0
      then integrateStep (physics this) (state this) (mass this) (diameter this)
             (gravity this) (airResistance this) (windSpeed this)
      else calculateNoAirResistance (v0 this) (angle this) (gravity this) (time this))"

text \<open>
  \<open>update()\<close>, statement by statement: the early return, the trajectory sample, the
  physics branch, the time, the maximal height and the landing test.
\<close>

definition update :: "Projectile \<Rightarrow> Projectile" where
  "update this =
     (if \<not> isFlying this \<or> hasLanded this then this
      else
        (let this1 =
               (if length (trajectory this) < maxTrajectoryPoints this
                then this\<lparr>trajectory :=
                            trajectory this @ [\<lparr>x = x (state this), y = y (state this)\<rparr>]\<rparr>
                else this);
             this2 = this1\<lparr>state := nextState this1\<rparr>;
             this3 = this2\<lparr>time := time this2 + dt (physics this2)\<rparr>;
             this4 =
               (if y (state this3) > maxHeight this3
                then this3\<lparr>maxHeight := y (state this3)\<rparr>
                else this3)
         in if y (state this4) \<le> 0 \<and> time this4 > 0.01
            then this4\<lparr>state := (state this4)\<lparr>y := 0\<rparr>,
                       hasLanded := True,
                       isFlying := False,
                       range_m := x (state this4)\<rparr>
            else this4))"

text \<open>\<open>getVelocity()\<close> and \<open>getVelocityAngle()\<close> are read-outs of the state.\<close>

definition getVelocity :: "Projectile \<Rightarrow> real" where
  "getVelocity this = sqrt ((vx (state this)) ^ 2 + (vy (state this)) ^ 2)"

subsection \<open>Runs of a projectile\<close>

text \<open>
  The animation loop calls \<open>update()\<close> once per frame on each projectile; \<open>ticks n\<close>
  is the projectile after \<open>n\<close> such calls.
\<close>

definition ticks :: "nat \<Rightarrow> Projectile \<Rightarrow> Projectile" where
  "ticks n this = (update ^^ n) this"

text \<open>
  What the first \<open>n\<close> calls of \<open>update()\<close> see and produce. A call that returns
  at once (not flying, or landed) leaves the projectile as it is, so neither it nor any
  later call contributes. \<open>samples\<close> lists the positions the projectile has when a
  call that runs begins; \<open>heights\<close> lists the heights \<open>y\<close> of the states that the
  physics branch of these calls computes (before the landing test sets \<open>y\<close> to 0).
\<close>

fun samples :: "nat \<Rightarrow> Projectile \<Rightarrow> Point list" where
  "samples 0 this = []"
| "samples (Suc n) this =
     (if \<not> isFlying this \<or> hasLanded this then []
      else \<lparr>x = x (state this), y = y (state this)\<rparr> # samples n (update this))"

fun heights :: "nat \<Rightarrow> Projectile \<Rightarrow> real list" where
  "heights 0 this = []"
| "heights (Suc n) this =
     (if \<not> isFlying this \<or> hasLanded this then []
      else y (nextState this) # heights n (update this))"

text \<open>
  Any sequence of calls of the three methods that change a projectile.
\<close>

datatype call = Launch | Update | Reset

fun perform :: "Projectile \<Rightarrow> call \<Rightarrow> Projectile" where
  "perform this Launch = launch this"
| "perform this Update = update this"
| "perform this Reset = reset this"

definition run :: "Projectile \<Rightarrow> call list \<Rightarrow> Projectile" where
  "run this cs = foldl perform this cs"

text \<open>
  The parameters the application starts with (velocity 15, angle 45, mass 1, diameter
  0.5, gravity 9.81, no air resistance, no wind), and the same with air resistance.
\<close>

definition defaultParams :: ProjectileParams where
  "defaultParams =
     \<lparr>p_velocity = 15, p_angle = 45, p_mass = 1, p_diameter = 0.5, p_gravity = 9.81,
      p_airResistance = False, p_windSpeed = Some 0\<rparr>"

definition dragParams :: ProjectileParams where
  "dragParams = defaultParams\<lparr>p_airResistance := True\<rparr>"

text \<open>A projectile at rest (velocity 0) with air resistance.\<close>

definition restParams :: ProjectileParams where
  "restParams = dragParams\<lparr>p_velocity := 0\<rparr>"

text \<open>A horizontal shot: velocity 10 at angle 0 under gravity 9.81, no air resistance.\<close>

definition levelParams :: ProjectileParams where
  "levelParams =
     \<lparr>p_velocity = 10, p_angle = 0, p_mass = 1, p_diameter = 0.5, p_gravity = 9.81,
      p_airResistance = False, p_windSpeed = Some 0\<rparr>"

text \<open>A horizontal shot for the predictor: the application's values at angle 0.\<close>

definition levelPrediction :: PredictionParams where
  "levelPrediction =
     \<lparr>pp_velocity = 15, pp_angle = 0, pp_mass = 1, pp_diameter = 0.5, pp_gravity = 9.81,
      pp_airResistance = False, pp_windSpeed = 0, pp_windEnabled = False\<rparr>"

section \<open>Basic facts\<close>

subsection \<open>Fields after reset, launch and construction\<close>

lemma reset_fields:
  "isFlying (reset p) = False" "hasLanded (reset p) = False" "time (reset p) = 0"
  "trajectory (reset p) = []" "maxHeight (reset p) = 0" "range_m (reset p) = 0"
  "state (reset p) = \<lparr>x = 0, y = 0, vx = v0 p * cos (angle p * pi / 180),
                     vy = v0 p * sin (angle p * pi / 180)\<rparr>"
  "v0 (reset p) = v0 p" "angle (reset p) = angle p" "mass (reset p) = mass p"
  "diameter (reset p) = diameter p" "gravity (reset p) = gravity p"
  "airResistance (reset p) = airResistance p" "windSpeed (reset p) = windSpeed p"
  "physics (reset p) = physics p" "maxTrajectoryPoints (reset p) = maxTrajectoryPoints p"
  by (simp_all add: reset_def Let_def)

lemma launch_fields:
  "isFlying (launch p) = True" "hasLanded (launch p) = False" "time (launch p) = 0"
  "trajectory (launch p) = []" "maxHeight (launch p) = 0" "range_m (launch p) = 0"
  "state (launch p) = \<lparr>x = 0, y = 0, vx = v0 p * cos (angle p * pi / 180),
                      vy = v0 p * sin (angle p * pi / 180)\<rparr>"
  "v0 (launch p) = v0 p" "angle (launch p) = angle p" "mass (launch p) = mass p"
  "diameter (launch p) = diameter p" "gravity (launch p) = gravity p"
  "airResistance (launch p) = airResistance p" "windSpeed (launch p) = windSpeed p"
  "physics (launch p) = physics p" "maxTrajectoryPoints (launch p) = maxTrajectoryPoints p"
  by (simp_all add: launch_def reset_fields)

lemma new_Projectile_fields:
  "isFlying (new_Projectile ps) = False" "hasLanded (new_Projectile ps) = False"
  "time (new_Projectile ps) = 0" "trajectory (new_Projectile ps) = []"
  "maxHeight (new_Projectile ps) = 0" "range_m (new_Projectile ps) = 0"
  "v0 (new_Projectile ps) = p_velocity ps" "angle (new_Projectile ps) = p_angle ps"
  "mass (new_Projectile ps) = p_mass ps" "diameter (new_Projectile ps) = p_diameter ps"
  "gravity (new_Projectile ps) = p_gravity ps"
  "airResistance (new_Projectile ps) = p_airResistance ps"
  "windSpeed (new_Projectile ps) = (case p_windSpeed ps of None \<Rightarrow> 0 | Some w \<Rightarrow> w)"
  "physics (new_Projectile ps) = new_PhysicsEngine"
  "maxTrajectoryPoints (new_Projectile ps) = 500"
  by (simp_all add: new_Projectile_def reset_def Let_def)

subsection \<open>One call of update\<close>

lemma nextState_trajectory [simp]: "nextState (p\<lparr>trajectory := ts\<rparr>) = nextState p"
  by (simp add: nextState_def)

lemma update_inactive: "\<not> isFlying p \<or> hasLanded p \<Longrightarrow> update p = p"
  by (simp add: update_def)

lemma update_active:
  assumes "isFlying p" "\<not> hasLanded p"
  shows "time (update p) = time p + dt (physics p)"
    and "hasLanded (update p) = (y (nextState p) \<le> 0 \<and> 0.01 < time p + dt (physics p))"
    and "isFlying (update p) = (\<not> (y (nextState p) \<le> 0 \<and> 0.01 < time p + dt (physics p)))"
    and "state (update p) =
           (if y (nextState p) \<le> 0 \<and> 0.01 < time p + dt (physics p)
            then (nextState p)\<lparr>y := 0\<rparr> else nextState p)"
    and "range_m (update p) =
           (if y (nextState p) \<le> 0 \<and> 0.01 < time p + dt (physics p)
            then x (nextState p) else range_m p)"
    and "maxHeight (update p) = max (maxHeight p) (y (nextState p))"
    and "trajectory (update p) =
           (if length (trajectory p) < maxTrajectoryPoints p
            then trajectory p @ [\<lparr>x = x (state p), y = y (state p)\<rparr>] else trajectory p)"
  using assms by (auto simp: update_def Let_def max_def)

lemma update_static:
  "v0 (update p) = v0 p" "angle (update p) = angle p" "mass (update p) = mass p"
  "diameter (update p) = diameter p" "gravity (update p) = gravity p"
  "airResistance (update p) = airResistance p" "windSpeed (update p) = windSpeed p"
  "physics (update p) = physics p" "maxTrajectoryPoints (update p) = maxTrajectoryPoints p"
  by (simp_all add: update_def Let_def)

subsection \<open>Several calls of update\<close>

lemma ticks_0 [simp]: "ticks 0 p = p"
  by (simp add: ticks_def)

lemma ticks_Suc: "ticks (Suc n) p = ticks n (update p)"
  by (simp add: ticks_def funpow_swap1)

lemma ticks_Suc_outer: "ticks (Suc n) p = update (ticks n p)"
  by (simp add: ticks_def)

lemma ticks_inactive: "\<not> isFlying p \<or> hasLanded p \<Longrightarrow> ticks n p = p"
  by (induction n) (simp_all add: ticks_Suc update_inactive)

subsection \<open>The first tick at the application's parameters\<close>

lemma default_nextState:
  "nextState (launch (new_Projectile defaultParams))
     = \<lparr>x = 0, y = 0, vx = 15 * (sqrt 2 / 2), vy = 15 * (sqrt 2 / 2)\<rparr>"
  by (simp add: launch_fields new_Projectile_fields defaultParams_def nextState_def
        calculateNoAirResistance_def cos_45 sin_45)

lemma default_first_tick:
  "hasLanded (update (launch (new_Projectile defaultParams)))"
  "\<not> isFlying (update (launch (new_Projectile defaultParams)))"
  "time (update (launch (new_Projectile defaultParams))) = 0.016"
  "state (update (launch (new_Projectile defaultParams)))
     = \<lparr>x = 0, y = 0, vx = 15 * (sqrt 2 / 2), vy = 15 * (sqrt 2 / 2)\<rparr>"
  "range_m (update (launch (new_Projectile defaultParams))) = 0"
  "maxHeight (update (launch (new_Projectile defaultParams))) = 0"
  "trajectory (update (launch (new_Projectile defaultParams))) = [\<lparr>x = 0, y = 0\<rparr>]"
  by (simp_all add: update_active update_static launch_fields new_Projectile_fields
        default_nextState new_PhysicsEngine_def)

section \<open>The landing test\<close>

lemma landed_time_ticks:
  "(hasLanded p \<Longrightarrow> 0.01 < time p) \<Longrightarrow> hasLanded (ticks n p) \<Longrightarrow> 0.01 < time (ticks n p)"
proof (induction n)
  case 0
  then show ?case by simp
next
  case (Suc n)
  let ?q = "ticks n p"
  show ?case
  proof (cases "isFlying ?q \<and> \<not> hasLanded ?q")
    case True
    then show ?thesis using Suc.prems(2) by (simp add: ticks_Suc_outer update_active)
  next
    case False
    then have "update ?q = ?q" by (simp add: update_inactive)
    then show ?thesis using Suc by (simp add: ticks_Suc_outer)
  qed
qed

text \<open>
  Claim C2. A call of \<open>update()\<close> on a projectile that is flying and has not landed
  sets \<open>hasLanded\<close> exactly when the state computed by the physics branch has
  \<open>y \<le> 0\<close> and the advanced time \<open>time + dt\<close> exceeds 0.01. In that case \<open>y\<close> is set
  to 0, \<open>isFlying\<close> is cleared and \<open>range\<close> is the \<open>x\<close> of that state; otherwise the
  projectile keeps flying with the computed state. Hence no flight, however many calls of
  \<open>update()\<close> follow its \<open>launch()\<close>, has landed at an elapsed time of 0.01 or less.
\<close>

theorem landing_test:
  "(isFlying p \<and> \<not> hasLanded p \<longrightarrow>
      (hasLanded (update p) = (y (nextState p) \<le> 0 \<and> 0.01 < time p + dt (physics p)))
      \<and> time (update p) = time p + dt (physics p)
      \<and> (hasLanded (update p) \<longrightarrow>
            y (state (update p)) = 0 \<and> x (state (update p)) = x (nextState p)
            \<and> \<not> isFlying (update p) \<and> range_m (update p) = x (nextState p)
            \<and> 0.01 < time (update p))
      \<and> (\<not> hasLanded (update p) \<longrightarrow>
            isFlying (update p) \<and> state (update p) = nextState p
            \<and> range_m (update p) = range_m p))
   \<and> (hasLanded (ticks n (launch q)) \<longrightarrow> 0.01 < time (ticks n (launch q)))"
proof -
  have "hasLanded (ticks n (launch q)) \<longrightarrow> 0.01 < time (ticks n (launch q))"
    using landed_time_ticks [of "launch q" n] by (simp add: launch_fields)
  then show ?thesis by (simp add: update_active)
qed

text \<open>
  The horizontal shot (velocity 10, angle 0, gravity 9.81): its first tick computes
  \<open>y = 0\<close> and advances the time to 0.016, beyond the guard, so it lands in that tick.
\<close>

theorem landing_test_witness:
  "isFlying (launch (new_Projectile levelParams))
   \<and> \<not> hasLanded (launch (new_Projectile levelParams))
   \<and> y (nextState (launch (new_Projectile levelParams))) \<le> 0
   \<and> 0.01 < time (launch (new_Projectile levelParams))
             + dt (physics (launch (new_Projectile levelParams)))
   \<and> hasLanded (update (launch (new_Projectile levelParams)))
   \<and> y (state (update (launch (new_Projectile levelParams)))) = 0
   \<and> \<not> isFlying (update (launch (new_Projectile levelParams)))
   \<and> range_m (update (launch (new_Projectile levelParams)))
        = x (nextState (launch (new_Projectile levelParams)))
   \<and> time (update (launch (new_Projectile levelParams))) = 0.016
   \<and> 0.01 < time (ticks 1 (launch (new_Projectile levelParams)))"
  using landing_test [of "launch (new_Projectile levelParams)" 1 "new_Projectile levelParams"]
  by (simp add: launch_fields new_Projectile_fields levelParams_def nextState_def
        calculateNoAirResistance_def new_PhysicsEngine_def ticks_def)

section \<open>A landed projectile does not change\<close>

text \<open>
  Claim C5. Once \<open>hasLanded\<close> is true, \<open>update()\<close> returns the projectile as it is:
  every field (state, time, range, trajectory, maxHeight, isFlying, hasLanded) keeps its
  value, after one call and after any number of calls, and \<open>hasLanded\<close> stays true.
\<close>

theorem landed_is_terminal:
  "hasLanded p \<Longrightarrow> update p = p \<and> ticks n p = p \<and> hasLanded (ticks n p)"
  by (simp add: update_inactive ticks_inactive)

theorem landed_is_terminal_witness:
  "hasLanded (update (launch (new_Projectile defaultParams)))
   \<and> update (update (launch (new_Projectile defaultParams)))
        = update (launch (new_Projectile defaultParams))
   \<and> ticks 3 (update (launch (new_Projectile defaultParams)))
        = update (launch (new_Projectile defaultParams))"
  using landed_is_terminal [of "update (launch (new_Projectile defaultParams))" 3]
  by (simp add: default_first_tick)

section \<open>The two flags\<close>

lemma perform_flags:
  "\<not> (isFlying p \<and> hasLanded p) \<Longrightarrow> \<not> (isFlying (perform p c) \<and> hasLanded (perform p c))"
proof (cases c)
  case Launch
  then show ?thesis by (simp add: launch_fields)
next
  case Update
  assume excl: "\<not> (isFlying p \<and> hasLanded p)"
  show ?thesis
  proof (cases "isFlying p \<and> \<not> hasLanded p")
    case True
    then show ?thesis using Update by (simp add: update_active)
  next
    case False
    then have "update p = p" by (simp add: update_inactive)
    then show ?thesis using Update excl by simp
  qed
next
  case Reset
  then show ?thesis by (simp add: reset_fields)
qed

lemma run_flags:
  "\<not> (isFlying p \<and> hasLanded p) \<Longrightarrow> \<not> (isFlying (run p cs) \<and> hasLanded (run p cs))"
  unfolding run_def
proof (induction cs arbitrary: p)
  case Nil
  then show ?case by simp
next
  case (Cons c cs)
  from Cons.prems have "\<not> (isFlying (perform p c) \<and> hasLanded (perform p c))"
    by (rule perform_flags)
  then show ?case using Cons.IH by simp
qed

text \<open>
  Claim C7. In every state reached from the constructor by any sequence of calls of
  \<open>launch()\<close>, \<open>update()\<close> and \<open>reset()\<close>, the flags \<open>isFlying\<close> and \<open>hasLanded\<close>
  are not both true; and both are false right after construction and right after any
  \<open>reset()\<close>.
\<close>

theorem flags_exclusive:
  "\<not> (isFlying (run (new_Projectile ps) cs) \<and> hasLanded (run (new_Projectile ps) cs))
   \<and> \<not> isFlying (new_Projectile ps) \<and> \<not> hasLanded (new_Projectile ps)
   \<and> \<not> isFlying (reset (run (new_Projectile ps) cs))
   \<and> \<not> hasLanded (reset (run (new_Projectile ps) cs))"
  using run_flags [of "new_Projectile ps" cs]
  by (simp add: new_Projectile_fields reset_fields)

theorem flags_exclusive_witness:
  "hasLanded (run (new_Projectile defaultParams) [Launch, Update])
   \<and> \<not> isFlying (run (new_Projectile defaultParams) [Launch, Update])
   \<and> \<not> hasLanded (reset (run (new_Projectile defaultParams) [Launch, Update]))"
  using flags_exclusive [of defaultParams "[Launch, Update]"]
  by (simp add: run_def default_first_tick)

section \<open>The maximal height\<close>

lemma maxHeight_update: "maxHeight p \<le> maxHeight (update p)"
proof (cases "isFlying p \<and> \<not> hasLanded p")
  case True
  then show ?thesis by (simp add: update_active)
next
  case False
  then show ?thesis by (simp add: update_inactive)
qed

lemma maxHeight_ticks_fold: "maxHeight (ticks n p) = fold max (heights n p) (maxHeight p)"
proof (induction n arbitrary: p)
  case 0
  then show ?case by simp
next
  case (Suc n)
  show ?case
  proof (cases "isFlying p \<and> \<not> hasLanded p")
    case True
    then have "maxHeight (update p) = max (y (nextState p)) (maxHeight p)"
      by (simp add: update_active max.commute)
    then show ?thesis using True Suc.IH [of "update p"] by (simp add: ticks_Suc)
  next
    case False
    then show ?thesis by (auto simp: ticks_inactive)
  qed
qed

text \<open>
  Claim C6. \<open>maxHeight\<close> does not decrease in any call of \<open>update()\<close>; and after
  \<open>launch()\<close> and any number of calls of \<open>update()\<close> it is the maximum of the initial
  height \<open>y = 0\<close> and of the heights computed by the physics branch of the calls so
  far. The landing test sets \<open>y\<close> to 0 only after \<open>maxHeight\<close> was updated.
\<close>

theorem maxHeight_is_running_maximum:
  "maxHeight p \<le> maxHeight (update p)
   \<and> y (state (launch q)) = 0
   \<and> maxHeight (ticks n (launch q)) = Max (set (y (state (launch q)) # heights n (launch q)))"
proof -
  have start: "y (state (launch q)) = 0" "maxHeight (launch q) = 0"
    by (simp_all add: launch_fields)
  have "maxHeight (ticks n (launch q)) = fold max (heights n (launch q)) (maxHeight (launch q))"
    by (rule maxHeight_ticks_fold)
  also have "\<dots> = Max (set (y (state (launch q)) # heights n (launch q)))"
    unfolding start by (rule Max.set_eq_fold [symmetric])
  finally show ?thesis
    using start(1) maxHeight_update [of p] by blast
qed

theorem maxHeight_is_running_maximum_witness:
  "maxHeight (launch (new_Projectile defaultParams))
     \<le> maxHeight (update (launch (new_Projectile defaultParams)))
   \<and> heights 2 (launch (new_Projectile defaultParams)) = [0]
   \<and> maxHeight (ticks 2 (launch (new_Projectile defaultParams))) = Max (set [0, 0])"
  using maxHeight_is_running_maximum
          [of "launch (new_Projectile defaultParams)" "new_Projectile defaultParams" 2]
  by (simp add: numeral_2_eq_2 default_first_tick default_nextState launch_fields)

section \<open>The recorded trajectory\<close>

lemma trajectory_ticks:
  "length (trajectory p) \<le> maxTrajectoryPoints p \<Longrightarrow>
   trajectory (ticks n p) = take (maxTrajectoryPoints p) (trajectory p @ samples n p)"
proof (induction n arbitrary: p)
  case 0
  then show ?case by simp
next
  case (Suc n)
  show ?case
  proof (cases "isFlying p \<and> \<not> hasLanded p")
    case True
    let ?pt = "\<lparr>x = x (state p), y = y (state p)\<rparr>"
    show ?thesis
    proof (cases "length (trajectory p) < maxTrajectoryPoints p")
      case room: True
      have traj: "trajectory (update p) = trajectory p @ [?pt]"
        using True room by (simp add: update_active)
      then have "length (trajectory (update p)) \<le> maxTrajectoryPoints (update p)"
        using room by (simp add: update_static)
      from Suc.IH [OF this] show ?thesis
        using True traj by (simp add: ticks_Suc update_static)
    next
      case full: False
      have traj: "trajectory (update p) = trajectory p"
        using True full by (simp add: update_active)
      then have "length (trajectory (update p)) \<le> maxTrajectoryPoints (update p)"
        using Suc.prems by (simp add: update_static)
      from Suc.IH [OF this] show ?thesis
        using True traj full Suc.prems by (simp add: ticks_Suc update_static)
    qed
  next
    case False
    then show ?thesis using Suc.prems by (auto simp: ticks_inactive)
  qed
qed

lemma perform_cap:
  "maxTrajectoryPoints (perform p c) = maxTrajectoryPoints p"
  "length (trajectory p) \<le> maxTrajectoryPoints p \<Longrightarrow>
   length (trajectory (perform p c)) \<le> maxTrajectoryPoints (perform p c)"
proof -
  show "maxTrajectoryPoints (perform p c) = maxTrajectoryPoints p"
    by (cases c) (simp_all add: launch_fields reset_fields update_static)
  assume le: "length (trajectory p) \<le> maxTrajectoryPoints p"
  show "length (trajectory (perform p c)) \<le> maxTrajectoryPoints (perform p c)"
  proof (cases c)
    case Launch
    then show ?thesis by (simp add: launch_fields)
  next
    case Update
    show ?thesis
    proof (cases "isFlying p \<and> \<not> hasLanded p")
      case True
      then show ?thesis using Update le by (simp add: update_active update_static)
    next
      case False
      then show ?thesis using Update le by (simp add: update_inactive)
    qed
  next
    case Reset
    then show ?thesis by (simp add: reset_fields)
  qed
qed

lemma run_cap:
  "length (trajectory p) \<le> maxTrajectoryPoints p \<Longrightarrow>
   maxTrajectoryPoints (run p cs) = maxTrajectoryPoints p
   \<and> length (trajectory (run p cs)) \<le> maxTrajectoryPoints p"
  unfolding run_def
proof (induction cs arbitrary: p)
  case Nil
  then show ?case by simp
next
  case (Cons c cs)
  from perform_cap(2) [OF Cons.prems, of c] Cons.IH [of "perform p c"]
  show ?case by (simp add: perform_cap(1))
qed

lemma rest_nextState:
  "nextState (launch (new_Projectile restParams))
     = \<lparr>x = 0, y = 0, vx = 0, vy = - (9.81 * 0.016)\<rparr>"
  by (simp add: launch_fields new_Projectile_fields restParams_def dragParams_def
        defaultParams_def nextState_def integrateStep_def calculateDragForce_def Let_def
        new_PhysicsEngine_def)

lemma rest_first_tick:
  "hasLanded (update (launch (new_Projectile restParams)))"
  "state (update (launch (new_Projectile restParams)))
     = \<lparr>x = 0, y = 0, vx = 0, vy = - (9.81 * 0.016)\<rparr>"
  "range_m (update (launch (new_Projectile restParams))) = 0"
  "trajectory (update (launch (new_Projectile restParams))) = [\<lparr>x = 0, y = 0\<rparr>]"
  by (simp_all add: update_active update_static launch_fields new_Projectile_fields
        rest_nextState new_PhysicsEngine_def)

text \<open>
  Claim C10, as the code has it. Every element of \<open>trajectory\<close> is the position the
  projectile had when some call of \<open>update()\<close> that ran began: after \<open>launch()\<close> and
  \<open>n\<close> calls of \<open>update()\<close>, on a projectile reached from the constructor by any calls,
  the trajectory is the list of these positions in order, cut off after 500 entries. The
  sample is taken before the physics step, so no call appends the position it computes,
  the landing tick included; and in every reachable state the trajectory holds at most
  500 points.
\<close>

theorem trajectory_holds_tick_starts:
  "length (trajectory (run (new_Projectile ps) cs)) \<le> 500
   \<and> trajectory (ticks n (launch (run (new_Projectile ps) cs)))
       = take 500 (samples n (launch (run (new_Projectile ps) cs)))"
proof -
  let ?p = "run (new_Projectile ps) cs"
  have cap: "maxTrajectoryPoints ?p = 500 \<and> length (trajectory ?p) \<le> 500"
    using run_cap [of "new_Projectile ps" cs] by (simp add: new_Projectile_fields)
  have "trajectory (ticks n (launch ?p))
          = take (maxTrajectoryPoints (launch ?p)) (trajectory (launch ?p) @ samples n (launch ?p))"
    by (rule trajectory_ticks) (simp add: launch_fields)
  then show ?thesis using cap by (simp add: launch_fields)
qed

theorem trajectory_holds_tick_starts_witness:
  "samples 2 (launch (run (new_Projectile defaultParams) [])) = [\<lparr>x = 0, y = 0\<rparr>]
   \<and> trajectory (ticks 2 (launch (run (new_Projectile defaultParams) []))) = [\<lparr>x = 0, y = 0\<rparr>]"
  using trajectory_holds_tick_starts [of defaultParams "[]" 2]
  by (simp add: numeral_2_eq_2 run_def default_first_tick launch_fields)

text \<open>
  The claim as stated also says that the landing position (\<open>y = 0\<close>, \<open>x = range\<close>) is
  never an element of the trajectory. That fails wherever a flight lands at a position
  it had at the start of a tick. The flight with the application's parameters lands in
  its first tick at the launch point, which that tick has just recorded; so does a
  projectile launched at rest with air resistance.
\<close>

theorem landing_position_in_trajectory:
  "hasLanded (update (launch (new_Projectile defaultParams)))
   \<and> y (state (update (launch (new_Projectile defaultParams)))) = 0
   \<and> x (state (update (launch (new_Projectile defaultParams))))
        = range_m (update (launch (new_Projectile defaultParams)))
   \<and> \<lparr>x = range_m (update (launch (new_Projectile defaultParams))), y = 0\<rparr>
        \<in> set (trajectory (update (launch (new_Projectile defaultParams))))
   \<and> hasLanded (update (launch (new_Projectile restParams)))
   \<and> y (state (update (launch (new_Projectile restParams)))) = 0
   \<and> x (state (update (launch (new_Projectile restParams))))
        = range_m (update (launch (new_Projectile restParams)))
   \<and> \<lparr>x = range_m (update (launch (new_Projectile restParams))), y = 0\<rparr>
        \<in> set (trajectory (update (launch (new_Projectile restParams))))"
  by (simp add: default_first_tick rest_first_tick)

section \<open>The forces and the Euler step\<close>

lemma speed_square: "(sqrt (a * a + b * b))\<^sup>2 = a * a + b * b"
  by (simp add: power2_eq_square [symmetric])

lemma opposing_magnitude:
  fixes m v a b :: real
  assumes v: "0 < v" "v\<^sup>2 = a * a + b * b" and m: "0 \<le> m"
  shows "sqrt ((- m * (a / v))\<^sup>2 + (- m * (b / v))\<^sup>2) = m"
proof -
  have "(- m * (a / v))\<^sup>2 + (- m * (b / v))\<^sup>2 = m\<^sup>2 * ((a * a + b * b) / v\<^sup>2)"
    by (simp add: power2_eq_square add_divide_distrib algebra_simps)
  also have "(a * a + b * b) / v\<^sup>2 = v\<^sup>2 / v\<^sup>2"
    by (simp only: v(2))
  also have "v\<^sup>2 / v\<^sup>2 = 1"
    using v(1) by simp
  finally show ?thesis using m by simp
qed

lemma speed_3_4: "sqrt (3 * 3 + 4 * 4) = (5::real)"
  by (rule real_sqrt_unique) simp_all

text \<open>
  Claim C8. \<open>calculateDragForce\<close> has a result for every \<open>(vx, vy, diameter)\<close>: no
  division by zero is evaluated (the checked variant never yields \<open>None\<close> and agrees with
  the method). With the speed \<open>v = sqrt (vx\<^sup>2 + vy\<^sup>2)\<close>: for \<open>v = 0\<close> the force is
  exactly \<open>(0, 0)\<close>; for \<open>v > 0\<close> it is the velocity scaled by a factor \<open>- m / v \<le> 0\<close>,
  hence opposite to the velocity, and its magnitude is
  \<open>m = 0.5 \<cdot> 1.225 \<cdot> v\<^sup>2 \<cdot> 0.47 \<cdot> \<pi> \<cdot> (diameter / 2)\<^sup>2\<close>.
\<close>

theorem drag_force_total:
  fixes a b d :: real
  defines "v \<equiv> sqrt (a * a + b * b)"
  defines "m \<equiv> 0.5 * 1.225 * v\<^sup>2 * 0.47 * (pi * (d / 2)\<^sup>2)"
  shows "calculateDragForce_checked new_PhysicsEngine a b d
           = (Some (fx (calculateDragForce new_PhysicsEngine a b d)),
              Some (fy (calculateDragForce new_PhysicsEngine a b d)))
         \<and> (v = 0 \<longrightarrow> calculateDragForce new_PhysicsEngine a b d = \<lparr>fx = 0, fy = 0\<rparr>)
         \<and> (0 < v \<longrightarrow>
              calculateDragForce new_PhysicsEngine a b d
                = \<lparr>fx = - (m / v) * a, fy = - (m / v) * b\<rparr>
              \<and> 0 \<le> m / v
              \<and> sqrt ((fx (calculateDragForce new_PhysicsEngine a b d))\<^sup>2
                      + (fy (calculateDragForce new_PhysicsEngine a b d))\<^sup>2) = m)"
proof -
  have m_nonneg: "0 \<le> m" by (simp add: m_def)
  have checked: "calculateDragForce_checked new_PhysicsEngine a b d
           = (Some (fx (calculateDragForce new_PhysicsEngine a b d)),
              Some (fy (calculateDragForce new_PhysicsEngine a b d)))"
    by (simp add: calculateDragForce_checked_def calculateDragForce_def divide_checked_def Let_def)
  have zero: "v = 0 \<longrightarrow> calculateDragForce new_PhysicsEngine a b d = \<lparr>fx = 0, fy = 0\<rparr>"
    by (simp add: calculateDragForce_def Let_def v_def)
  have pos: "calculateDragForce new_PhysicsEngine a b d = \<lparr>fx = - (m / v) * a, fy = - (m / v) * b\<rparr>
      \<and> 0 \<le> m / v
      \<and> sqrt ((fx (calculateDragForce new_PhysicsEngine a b d))\<^sup>2
                      + (fy (calculateDragForce new_PhysicsEngine a b d))\<^sup>2) = m" if "0 < v"
  proof -
    have force: "calculateDragForce new_PhysicsEngine a b d
                   = \<lparr>fx = - m * (a / v), fy = - m * (b / v)\<rparr>"
      using that
      by (simp add: calculateDragForce_def Let_def v_def [symmetric] m_def new_PhysicsEngine_def
            power2_eq_square)
    have "v\<^sup>2 = a * a + b * b"
      unfolding v_def by (rule speed_square)
    from opposing_magnitude [OF that this m_nonneg] force m_nonneg that
    show ?thesis by simp
  qed
  from checked zero pos show ?thesis by blast
qed

theorem drag_force_total_witness:
  "calculateDragForce_checked new_PhysicsEngine 0 0 0.5 = (Some 0, Some 0)
   \<and> calculateDragForce new_PhysicsEngine 0 0 0.5 = \<lparr>fx = 0, fy = 0\<rparr>
   \<and> calculateDragForce new_PhysicsEngine 3 4 0.5
        = \<lparr>fx = - ((0.5 * 1.225 * 5\<^sup>2 * 0.47 * (pi * (0.5 / 2)\<^sup>2)) / 5) * 3,
           fy = - ((0.5 * 1.225 * 5\<^sup>2 * 0.47 * (pi * (0.5 / 2)\<^sup>2)) / 5) * 4\<rparr>
   \<and> sqrt ((fx (calculateDragForce new_PhysicsEngine 3 4 0.5))\<^sup>2
           + (fy (calculateDragForce new_PhysicsEngine 3 4 0.5))\<^sup>2)
        = 0.5 * 1.225 * 5\<^sup>2 * 0.47 * (pi * (0.5 / 2)\<^sup>2)"
proof -
  have still: "sqrt (0 * 0 + 0 * 0) = (0::real)" and moving: "(0::real) < 5"
    by simp_all
  from drag_force_total [of 0 0 "0.5", unfolded still]
  have rest: "calculateDragForce_checked new_PhysicsEngine 0 0 0.5 = (Some 0, Some 0)
              \<and> calculateDragForce new_PhysicsEngine 0 0 0.5 = \<lparr>fx = 0, fy = 0\<rparr>"
    by simp
  from drag_force_total [of 3 4 "0.5", unfolded speed_3_4] moving rest
  show ?thesis by blast
qed

text \<open>
  Claim C3. With the engine's constants, \<open>integrateStep\<close> returns exactly
  \<open>{x + vx\<cdot>dt, y + vy\<cdot>dt, vx + ax\<cdot>dt, vy + ay\<cdot>dt}\<close> for \<open>dt = 0.016\<close>. The vertical
  acceleration starts at \<open>- g\<close>. Exactly when \<open>airResistance\<close> is set, the drag
  acceleration is added: magnitude \<open>D = 0.5 \<cdot> 1.225 \<cdot> v\<^sup>2 \<cdot> 0.47 \<cdot> A / mass\<close> with
  \<open>A = \<pi> \<cdot> (diameter / 2)\<^sup>2\<close>, along minus the unit vector of the velocity (nothing at
  speed 0). Exactly when \<open>windSpeed \<noteq> 0\<close>, the horizontal acceleration
  \<open>0.5 \<cdot> 1.225 \<cdot> windSpeed \<cdot> |windSpeed| \<cdot> 0.47 \<cdot> A / mass\<close> is added to \<open>ax\<close> and nothing
  to \<open>ay\<close>.
\<close>

theorem integrateStep_formula:
  fixes s :: State and m d g w :: real and air :: bool
  defines "v \<equiv> sqrt (vx s * vx s + vy s * vy s)"
  defines "A \<equiv> pi * (d / 2)\<^sup>2"
  defines "D \<equiv> 0.5 * 1.225 * v\<^sup>2 * 0.47 * A / m"
  defines "W \<equiv> 0.5 * 1.225 * w * \<bar>w\<bar> * 0.47 * A / m"
  defines "ax \<equiv> (if air \<and> 0 < v then - D * (vx s / v) else 0) + (if w \<noteq> 0 then W else 0)"
  defines "ay \<equiv> - g + (if air \<and> 0 < v then - D * (vy s / v) else 0)"
  shows "integrateStep new_PhysicsEngine s m d g air w
           = \<lparr>x = x s + vx s * 0.016, y = y s + vy s * 0.016,
              vx = vx s + ax * 0.016, vy = vy s + ay * 0.016\<rparr>
         \<and> (0 < v \<and> 0 < m \<longrightarrow> sqrt ((- D * (vx s / v))\<^sup>2 + (- D * (vy s / v))\<^sup>2) = D)"
proof -
  have step: "integrateStep new_PhysicsEngine s m d g air w
           = \<lparr>x = x s + vx s * 0.016, y = y s + vy s * 0.016,
              vx = vx s + ax * 0.016, vy = vy s + ay * 0.016\<rparr>"
    by (simp add: integrateStep_def calculateDragForce_def calculateWindForce_def Let_def
          new_PhysicsEngine_def ax_def ay_def D_def W_def A_def v_def [symmetric]
          power2_eq_square)
  have "sqrt ((- D * (vx s / v))\<^sup>2 + (- D * (vy s / v))\<^sup>2) = D" if "0 < v" "0 < m"
  proof -
    have "0 \<le> D" using that by (simp add: D_def A_def)
    moreover have "v\<^sup>2 = vx s * vx s + vy s * vy s"
      unfolding v_def by (rule speed_square)
    ultimately show ?thesis
      using that(1) by (intro opposing_magnitude)
  qed
  with step show ?thesis by blast
qed

theorem integrateStep_formula_witness:
  "integrateStep new_PhysicsEngine \<lparr>x = 1, y = 2, vx = 3, vy = 4\<rparr> 2 0.5 9.81 True (- 3)
     = \<lparr>x = 1 + 3 * 0.016, y = 2 + 4 * 0.016,
        vx = 3 + (- (0.5 * 1.225 * 5\<^sup>2 * 0.47 * (pi * (0.5 / 2)\<^sup>2) / 2) * (3 / 5)
                  + 0.5 * 1.225 * (- 3) * \<bar>- 3\<bar> * 0.47 * (pi * (0.5 / 2)\<^sup>2) / 2) * 0.016,
        vy = 4 + (- 9.81 + - (0.5 * 1.225 * 5\<^sup>2 * 0.47 * (pi * (0.5 / 2)\<^sup>2) / 2) * (4 / 5)) * 0.016\<rparr>
   \<and> sqrt ((- (0.5 * 1.225 * 5\<^sup>2 * 0.47 * (pi * (0.5 / 2)\<^sup>2) / 2) * (3 / 5))\<^sup>2
           + (- (0.5 * 1.225 * 5\<^sup>2 * 0.47 * (pi * (0.5 / 2)\<^sup>2) / 2) * (4 / 5))\<^sup>2)
        = 0.5 * 1.225 * 5\<^sup>2 * 0.47 * (pi * (0.5 / 2)\<^sup>2) / 2"
  using integrateStep_formula
          [where s = "\<lparr>x = 1, y = 2, vx = 3, vy = 4\<rparr>" and m = 2 and d = "0.5"
             and g = "9.81" and air = True and w = "- 3"]
  by (simp add: speed_3_4)

lemma integrateStep_position:
  "x (integrateStep e s m d g air w) = x s + vx s * dt e"
  "y (integrateStep e s m d g air w) = y s + vy s * dt e"
  by (simp_all add: integrateStep_def Let_def split_def)

section \<open>The predicted trajectory\<close>

lemma loop_props:
  assumes "t = real (length pts) * predict_dt" "length pts \<le> 600"
  shows "length (calculateTrajectory_loop e ps t st pts) \<le> 600
     \<and> length pts \<le> length (calculateTrajectory_loop e ps t st pts)
     \<and> take (length pts) (calculateTrajectory_loop e ps t st pts) = pts
     \<and> (\<forall>i. length pts \<le> i \<and> Suc i < length (calculateTrajectory_loop e ps t st pts)
            \<longrightarrow> \<not> (y (calculateTrajectory_loop e ps t st pts ! i) < 0
                     \<and> 0.01 < real i * predict_dt))
     \<and> (length (calculateTrajectory_loop e ps t st pts) < 600 \<longrightarrow>
           length pts < length (calculateTrajectory_loop e ps t st pts)
           \<and> y (last (calculateTrajectory_loop e ps t st pts)) < 0
           \<and> 0.01 < real (length (calculateTrajectory_loop e ps t st pts) - 1) * predict_dt)"
  using assms
proof (induction e ps t st pts rule: calculateTrajectory_loop.induct)
  case (1 e ps t st pts)
  let ?k = "length pts"
  let ?pt = "\<lparr>x = x st, y = y st\<rparr>"
  let ?next = "if pp_airResistance ps \<or> (pp_windEnabled ps \<and> pp_windSpeed ps \<noteq> 0)
               then integrateStep e st (pp_mass ps) (pp_diameter ps)
                      (pp_gravity ps) (pp_airResistance ps)
                      (if pp_windEnabled ps then pp_windSpeed ps else 0)
               else calculateNoAirResistance (pp_velocity ps) (pp_angle ps)
                      (pp_gravity ps) t"
  have "t < maxTime \<longleftrightarrow> real ?k < 600"
    unfolding "1.prems"(1) by (simp add: maxTime_def predict_dt_def)
  then have time: "t < maxTime \<longleftrightarrow> ?k < 600"
    by simp
  show ?case
  proof (cases "?k < 600")
    case False
    then have ge: "\<not> t < maxTime" using time by simp
    have "calculateTrajectory_loop e ps t st pts = pts"
      by (subst calculateTrajectory_loop.simps) (simp only: ge if_False)
    then show ?thesis using False "1.prems"(2) by simp
  next
    case True
    then have lt: "t < maxTime" using time by simp
    show ?thesis
    proof (cases "y st < 0 \<and> 0.01 < t")
      case stop: True
      have "calculateTrajectory_loop e ps t st pts = pts @ [?pt]"
        by (subst calculateTrajectory_loop.simps) (simp only: lt stop simp_thms if_True Let_def)
      then show ?thesis using True stop "1.prems"(1) by (simp add: less_Suc_eq_le)
    next
      case go: False
      let ?r = "calculateTrajectory_loop e ps (t + predict_dt) ?next (pts @ [?pt])"
      have unfold: "calculateTrajectory_loop e ps t st pts = ?r"
        by (subst calculateTrajectory_loop.simps)
           (simp only: lt go simp_thms if_True if_False Let_def)
      have t': "t + predict_dt = real (length (pts @ [?pt])) * predict_dt"
        using "1.prems"(1) by (simp add: algebra_simps)
      have k': "length (pts @ [?pt]) \<le> 600"
        using True by simp
      note IH = "1.IH" [OF lt refl go refl t' k']
      have len: "Suc ?k \<le> length ?r" using IH by simp
      have tk: "take (Suc ?k) ?r = pts @ [?pt]" using IH by simp
      have tk0: "take ?k ?r = pts"
      proof -
        have "take ?k ?r = take ?k (take (Suc ?k) ?r)" by (simp add: min_def)
        then show ?thesis unfolding tk by simp
      qed
      have nth: "?r ! ?k = ?pt"
      proof -
        have "?r ! ?k = take (Suc ?k) ?r ! ?k" by simp
        then show ?thesis unfolding tk by simp
      qed
      have idx: "\<not> (y (?r ! i) < 0 \<and> 0.01 < real i * predict_dt)"
        if "?k \<le> i" "Suc i < length ?r" for i
      proof (cases "i = ?k")
        case True
        then show ?thesis using nth go "1.prems"(1) by simp
      next
        case False
        then have "length (pts @ [?pt]) \<le> i" using that(1) by simp
        then show ?thesis using IH that(2) by blast
      qed
      show ?thesis
        unfolding unfold using IH len tk0 idx by auto
    qed
  qed
qed

text \<open>
  Claim C9. \<open>calculateTrajectory\<close> terminates for every input (its loop is a total
  function: the distance of \<open>t\<close> to \<open>maxTime = 30\<close> shrinks by the sub-step 0.05 each
  round) and returns at most 600 points. The point with index \<open>i\<close> is emitted at loop
  time \<open>i \<cdot> 0.05\<close>; a point below ground (\<open>y < 0\<close>) emitted after the guard time 0.01
  is the last one, and a result of fewer than 600 points ends with such a point. The
  function reads the parameters and the engine only, works on its own local state, and
  returns the list: no projectile is among its arguments or results.
\<close>

theorem calculateTrajectory_bounded:
  "length (calculateTrajectory e ps) \<le> 600
   \<and> (\<forall>i. Suc i < length (calculateTrajectory e ps) \<longrightarrow>
          \<not> (y (calculateTrajectory e ps ! i) < 0 \<and> 0.01 < real i * predict_dt))
   \<and> (length (calculateTrajectory e ps) < 600 \<longrightarrow>
          y (last (calculateTrajectory e ps)) < 0
          \<and> 0.01 < real (length (calculateTrajectory e ps) - 1) * predict_dt)"
  unfolding calculateTrajectory_def
  using loop_props [of 0 "[]" e ps
          "\<lparr>x = 0, y = 0, vx = pp_velocity ps * cos (pp_angle ps * pi / 180),
            vy = pp_velocity ps * sin (pp_angle ps * pi / 180)\<rparr>"]
  by simp

lemma level_prediction:
  "calculateTrajectory new_PhysicsEngine levelPrediction
     = [\<lparr>x = 0, y = 0\<rparr>, \<lparr>x = 0, y = 0\<rparr>, \<lparr>x = 0.75, y = - 0.0122625\<rparr>]"
  by (simp add: calculateTrajectory_def calculateTrajectory_loop.simps levelPrediction_def
        maxTime_def predict_dt_def calculateNoAirResistance_def Let_def)

theorem calculateTrajectory_bounded_witness:
  "calculateTrajectory new_PhysicsEngine levelPrediction
     = [\<lparr>x = 0, y = 0\<rparr>, \<lparr>x = 0, y = 0\<rparr>, \<lparr>x = 0.75, y = - 0.0122625\<rparr>]
   \<and> length (calculateTrajectory new_PhysicsEngine levelPrediction) \<le> 600
   \<and> y (last (calculateTrajectory new_PhysicsEngine levelPrediction)) < 0
   \<and> 0.01 < real (length (calculateTrajectory new_PhysicsEngine levelPrediction) - 1) * predict_dt"
  using calculateTrajectory_bounded [of new_PhysicsEngine levelPrediction]
  by (simp add: level_prediction)

section \<open>The flight without air resistance and wind\<close>

lemma drag_nextState:
  "nextState (launch (new_Projectile dragParams))
     = integrateStep new_PhysicsEngine
         \<lparr>x = 0, y = 0, vx = 15 * (sqrt 2 / 2), vy = 15 * (sqrt 2 / 2)\<rparr> 1 0.5 9.81 True 0"
  by (simp add: launch_fields new_Projectile_fields dragParams_def defaultParams_def
        nextState_def cos_45 sin_45)

lemma drag_first_tick:
  "\<not> hasLanded (update (launch (new_Projectile dragParams)))"
  "isFlying (update (launch (new_Projectile dragParams)))"
  "x (state (update (launch (new_Projectile dragParams)))) = 15 * (sqrt 2 / 2) * 0.016"
  "y (state (update (launch (new_Projectile dragParams)))) = 15 * (sqrt 2 / 2) * 0.016"
  by (simp_all add: update_active update_static launch_fields new_Projectile_fields
        drag_nextState integrateStep_position new_PhysicsEngine_def)

text \<open>
  The branch without air resistance and wind computes the closed form at the time before
  the tick and then advances the time: a tick leaves the state one step behind
  \<open>time\<close>, with \<open>x\<close> short of the closed form at \<open>time\<close> by \<open>v0 \<cdot> cos(angle) \<cdot> dt\<close>.
  (The Euler branch advances state and time together.)
\<close>

lemma analytic_tick_lags_behind:
  "isFlying p \<and> \<not> hasLanded p \<and> \<not> airResistance p \<and> windSpeed p = 0 \<longrightarrow>
     time (update p) = time p + dt (physics p)
     \<and> nextState p = calculateNoAirResistance (v0 p) (angle p) (gravity p) (time p)
     \<and> x (state (update p))
         = x (calculateNoAirResistance (v0 p) (angle p) (gravity p)
                (time (update p) - dt (physics p)))
     \<and> vx (state (update p))
         = vx (calculateNoAirResistance (v0 p) (angle p) (gravity p)
                (time (update p) - dt (physics p)))
     \<and> vy (state (update p))
         = vy (calculateNoAirResistance (v0 p) (angle p) (gravity p)
                (time (update p) - dt (physics p)))
     \<and> x (calculateNoAirResistance (v0 p) (angle p) (gravity p) (time (update p)))
         - x (state (update p))
         = v0 p * cos (angle p * pi / 180) * dt (physics p)"
  by (simp add: update_active nextState_def calculateNoAirResistance_def Let_def algebra_simps)




subsection \<open>The range with and without air resistance\<close>

text \<open>
  With air resistance and no wind, one Euler step scales the velocity by
  \<open>1 - k \<cdot> v\<close> and then subtracts \<open>g \<cdot> dt\<close> from \<open>vy\<close>, where \<open>v\<close> is the speed and
  \<open>k = 0.5 \<cdot> AIR_DENSITY \<cdot> DRAG_COEFFICIENT \<cdot> A \<cdot> dt / mass\<close>. While the speed stays
  below a bound \<open>V\<close> with \<open>2 \<cdot> k \<cdot> V \<le> 1\<close> and \<open>g \<cdot> dt \<le> k \<cdot> V\<^sup>2\<close>, the step is stable:
  the speed stays below \<open>V\<close>, \<open>vx\<close> keeps its sign and \<open>x\<close> does not decrease.
\<close>

lemma drag_velocity:
  fixes s :: State and e :: PhysicsEngine and m d g :: real
  assumes "m \<noteq> 0"
  defines "v \<equiv> sqrt (vx s * vx s + vy s * vy s)"
  defines "k \<equiv> 0.5 * AIR_DENSITY e * DRAG_COEFFICIENT e * (pi * (d / 2)\<^sup>2) * dt e / m"
  shows "vx (integrateStep e s m d g True 0) = vx s * (1 - k * v)"
    and "vy (integrateStep e s m d g True 0) = vy s * (1 - k * v) - g * dt e"
proof -
  have v0: "0 \<le> v" by (simp add: v_def)
  show "vx (integrateStep e s m d g True 0) = vx s * (1 - k * v)"
  proof (cases "0 < v")
    case True
    then show ?thesis
      using assms(1)
      by (simp add: integrateStep_def calculateDragForce_def Let_def v_def [symmetric] k_def
            field_simps)
  next
    case False
    then have "v = 0" using v0 by simp
    then show ?thesis
      by (simp add: integrateStep_def calculateDragForce_def Let_def v_def [symmetric])
  qed
  show "vy (integrateStep e s m d g True 0) = vy s * (1 - k * v) - g * dt e"
  proof (cases "0 < v")
    case True
    then show ?thesis
      using assms(1)
      by (simp add: integrateStep_def calculateDragForce_def Let_def v_def [symmetric] k_def
            field_simps)
  next
    case False
    then have "v = 0" using v0 by simp
    then show ?thesis
      by (simp add: integrateStep_def calculateDragForce_def Let_def v_def [symmetric])
  qed
qed

lemma stable_speed:
  fixes a b u v V c :: real
  assumes v: "0 \<le> v" "v\<^sup>2 = a\<^sup>2 + b\<^sup>2" "v \<le> V"
    and k: "0 \<le> k" "2 * k * V \<le> 1" "c \<le> k * V\<^sup>2" "0 \<le> c"
  shows "(a * (1 - k * v))\<^sup>2 + (b * (1 - k * v) - c)\<^sup>2 \<le> V\<^sup>2"
proof -
  let ?u = "1 - k * v"
  have kv: "k * v \<le> k * V" using v(3) k(1) by (rule mult_left_mono)
  then have u: "0 \<le> ?u" "?u \<le> 1" using k(1,2) v(1) by (simp_all add: algebra_simps)
  have "b\<^sup>2 \<le> v\<^sup>2" using v(2) by simp
  then have "\<bar>b\<bar> \<le> v" using v(1) by (simp add: abs_le_square_iff [symmetric])
  then have nb: "- b \<le> v" by simp
  have "(a * ?u)\<^sup>2 + (b * ?u - c)\<^sup>2 = ?u\<^sup>2 * v\<^sup>2 + 2 * ?u * c * (- b) + c\<^sup>2"
    unfolding v(2) by (simp add: power2_eq_square algebra_simps)
  also have "\<dots> \<le> ?u\<^sup>2 * v\<^sup>2 + 2 * ?u * c * v + c\<^sup>2"
  proof -
    have "0 \<le> 2 * ?u * c" using u(1) k(4) by simp
    then have "2 * ?u * c * (- b) \<le> 2 * ?u * c * v"
      using nb by (rule mult_left_mono [rotated])
    then show ?thesis by simp
  qed
  also have "\<dots> = (?u * v + c)\<^sup>2"
    by (simp add: power2_eq_square algebra_simps)
  finally have sq: "(a * ?u)\<^sup>2 + (b * ?u - c)\<^sup>2 \<le> (?u * v + c)\<^sup>2" .
  have "V - (?u * v + c) = (V - v) + k * v\<^sup>2 - c"
    by (simp add: power2_eq_square algebra_simps)
  moreover have "(V - v) + k * v\<^sup>2 - k * V\<^sup>2 = (V - v) * (1 - k * (V + v))"
    by (simp add: power2_eq_square algebra_simps)
  moreover have "0 \<le> (V - v) * (1 - k * (V + v))"
  proof -
    have "k * (V + v) \<le> 2 * k * V" using kv by (simp add: algebra_simps)
    then have "0 \<le> 1 - k * (V + v)" using k(2) by simp
    then show ?thesis using v(3) by simp
  qed
  ultimately have le: "?u * v + c \<le> V" using k(3) by linarith
  have "0 \<le> ?u * v + c" using u(1) v(1) k(4) by simp
  with le have "(?u * v + c)\<^sup>2 \<le> V\<^sup>2" by (rule power_mono)
  with sq show ?thesis by linarith
qed


lemma speed_le:
  fixes a b V :: real
  assumes "a\<^sup>2 + b\<^sup>2 \<le> V\<^sup>2" "0 \<le> V"
  shows "sqrt (a * a + b * b) \<le> V"
proof -
  have "a * a + b * b \<le> V\<^sup>2"
    using assms(1) by (simp add: power2_eq_square)
  then have "sqrt (a * a + b * b) \<le> sqrt (V\<^sup>2)"
    by (rule real_sqrt_le_mono)
  then show ?thesis using assms(2) by simp
qed

lemma drag_step_stable:
  fixes s :: State and e :: PhysicsEngine and m d g V :: real
  defines "k \<equiv> 0.5 * AIR_DENSITY e * DRAG_COEFFICIENT e * (pi * (d / 2)\<^sup>2) * dt e / m"
  assumes par: "0 < m" "0 \<le> g" "0 \<le> AIR_DENSITY e" "0 \<le> DRAG_COEFFICIENT e" "0 \<le> dt e"
    and stable: "0 \<le> V" "2 * k * V \<le> 1" "g * dt e \<le> k * V\<^sup>2"
    and inv: "0 \<le> x s" "0 \<le> vx s" "(vx s)\<^sup>2 + (vy s)\<^sup>2 \<le> V\<^sup>2"
  shows "0 \<le> x (integrateStep e s m d g True 0)"
    and "0 \<le> vx (integrateStep e s m d g True 0)"
    and "(vx (integrateStep e s m d g True 0))\<^sup>2 + (vy (integrateStep e s m d g True 0))\<^sup>2 \<le> V\<^sup>2"
proof -
  let ?v = "sqrt (vx s * vx s + vy s * vy s)"
  have m: "m \<noteq> 0" using par(1) by simp
  have k0: "0 \<le> k" using par by (simp add: k_def)
  have v0: "0 \<le> ?v" by simp
  have v2: "?v\<^sup>2 = (vx s)\<^sup>2 + (vy s)\<^sup>2" by (simp add: power2_eq_square)
  have vV: "?v \<le> V" using inv(3) stable(1) by (rule speed_le)
  have vel: "vx (integrateStep e s m d g True 0) = vx s * (1 - k * ?v)"
    "vy (integrateStep e s m d g True 0) = vy s * (1 - k * ?v) - g * dt e"
    unfolding k_def using m by (rule drag_velocity)+
  show "0 \<le> x (integrateStep e s m d g True 0)"
    using inv(1,2) par(5) by (simp add: integrateStep_position)
  have "k * ?v \<le> k * V" using vV k0 by (rule mult_left_mono)
  then have "0 \<le> 1 - k * ?v" using stable(1,2) k0 by (simp add: algebra_simps)
  then show "0 \<le> vx (integrateStep e s m d g True 0)"
    unfolding vel using inv(2) by simp
  have "0 \<le> g * dt e" using par(2,5) by simp
  with v0 v2 vV k0 stable(2,3)
  have "(vx s * (1 - k * ?v))\<^sup>2 + (vy s * (1 - k * ?v) - g * dt e)\<^sup>2 \<le> V\<^sup>2"
    by (intro stable_speed)
  then show "(vx (integrateStep e s m d g True 0))\<^sup>2
               + (vy (integrateStep e s m d g True 0))\<^sup>2 \<le> V\<^sup>2"
    unfolding vel .
qed


lemma ticks_static:
  "mass (ticks n p) = mass p" "diameter (ticks n p) = diameter p"
  "gravity (ticks n p) = gravity p" "airResistance (ticks n p) = airResistance p"
  "windSpeed (ticks n p) = windSpeed p" "physics (ticks n p) = physics p"
  by (induction n) (simp_all add: ticks_Suc_outer update_static)

lemma drag_update_stable:
  fixes p :: Projectile and V :: real
  assumes par: "airResistance p" "windSpeed p = 0" "0 < mass p" "0 \<le> gravity p"
      "0 \<le> AIR_DENSITY (physics p)" "0 \<le> DRAG_COEFFICIENT (physics p)" "0 \<le> dt (physics p)"
    and stable: "0 \<le> V"
      "2 * (0.5 * AIR_DENSITY (physics p) * DRAG_COEFFICIENT (physics p)
            * (pi * (diameter p / 2)\<^sup>2) * dt (physics p) / mass p) * V \<le> 1"
      "gravity p * dt (physics p)
         \<le> 0.5 * AIR_DENSITY (physics p) * DRAG_COEFFICIENT (physics p)
            * (pi * (diameter p / 2)\<^sup>2) * dt (physics p) / mass p * V\<^sup>2"
    and inv: "0 \<le> x (state p)" "0 \<le> vx (state p)"
      "(vx (state p))\<^sup>2 + (vy (state p))\<^sup>2 \<le> V\<^sup>2" "0 \<le> range_m p"
  shows "0 \<le> x (state (update p)) \<and> 0 \<le> vx (state (update p))
         \<and> (vx (state (update p)))\<^sup>2 + (vy (state (update p)))\<^sup>2 \<le> V\<^sup>2
         \<and> 0 \<le> range_m (update p)"
proof (cases "isFlying p \<and> \<not> hasLanded p")
  case False
  then have "update p = p" by (simp add: update_inactive)
  then show ?thesis using inv by simp
next
  case True
  have next_eq: "nextState p = integrateStep (physics p) (state p) (mass p) (diameter p)
                                 (gravity p) True 0"
    using par(1,2) by (simp add: nextState_def)
  note step = drag_step_stable [OF par(3-7) stable inv(1-3)]
  from step show ?thesis
    using True inv(4) by (simp add: update_active next_eq)
qed

lemma drag_ticks_stable:
  fixes p :: Projectile and V :: real
  assumes par: "airResistance p" "windSpeed p = 0" "0 < mass p" "0 \<le> gravity p"
      "0 \<le> AIR_DENSITY (physics p)" "0 \<le> DRAG_COEFFICIENT (physics p)" "0 \<le> dt (physics p)"
    and stable: "0 \<le> V"
      "2 * (0.5 * AIR_DENSITY (physics p) * DRAG_COEFFICIENT (physics p)
            * (pi * (diameter p / 2)\<^sup>2) * dt (physics p) / mass p) * V \<le> 1"
      "gravity p * dt (physics p)
         \<le> 0.5 * AIR_DENSITY (physics p) * DRAG_COEFFICIENT (physics p)
            * (pi * (diameter p / 2)\<^sup>2) * dt (physics p) / mass p * V\<^sup>2"
    and inv: "0 \<le> x (state p)" "0 \<le> vx (state p)"
      "(vx (state p))\<^sup>2 + (vy (state p))\<^sup>2 \<le> V\<^sup>2" "0 \<le> range_m p"
  shows "0 \<le> x (state (ticks n p)) \<and> 0 \<le> vx (state (ticks n p))
         \<and> (vx (state (ticks n p)))\<^sup>2 + (vy (state (ticks n p)))\<^sup>2 \<le> V\<^sup>2
         \<and> 0 \<le> range_m (ticks n p)"
proof (induction n)
  case 0
  then show ?case using inv by simp
next
  case (Suc n)
  let ?q = "ticks n p"
  have "0 \<le> x (state (update ?q)) \<and> 0 \<le> vx (state (update ?q))
         \<and> (vx (state (update ?q)))\<^sup>2 + (vy (state (update ?q)))\<^sup>2 \<le> V\<^sup>2
         \<and> 0 \<le> range_m (update ?q)"
    using par stable Suc.IH by (intro drag_update_stable) (simp_all add: ticks_static)
  then show ?case by (simp add: ticks_Suc_outer)
qed


lemma drag_flight_range_nonneg:
  fixes r :: Projectile and V :: real
  assumes drag: "airResistance r" "windSpeed r = 0" "0 < mass r" "0 \<le> gravity r"
      "physics r = new_PhysicsEngine"
    and start: "0 \<le> v0 r * cos (angle r * pi / 180)" "\<bar>v0 r\<bar> \<le> V"
    and stable:
      "2 * (0.5 * 1.225 * 0.47 * (pi * (diameter r / 2)\<^sup>2) * 0.016 / mass r) * V \<le> 1"
      "gravity r * 0.016
         \<le> 0.5 * 1.225 * 0.47 * (pi * (diameter r / 2)\<^sup>2) * 0.016 / mass r * V\<^sup>2"
  shows "0 \<le> range_m (ticks k (launch r)) \<and> 0 \<le> x (state (ticks k (launch r)))"
proof -
  let ?p = "launch r"
  have V: "0 \<le> V" using start(2) by simp
  have "(v0 r * cos (angle r * pi / 180))\<^sup>2 + (v0 r * sin (angle r * pi / 180))\<^sup>2
          = (v0 r)\<^sup>2 * ((cos (angle r * pi / 180))\<^sup>2 + (sin (angle r * pi / 180))\<^sup>2)"
    by (simp only: power_mult_distrib distrib_left)
  also have "\<dots> = (v0 r)\<^sup>2" by (simp only: sin_cos_squared_add2 mult_1_right)
  also have "\<dots> \<le> V\<^sup>2" using start(2) by (simp add: abs_le_square_iff [symmetric])
  finally have speed: "(vx (state ?p))\<^sup>2 + (vy (state ?p))\<^sup>2 \<le> V\<^sup>2"
    by (simp add: launch_fields)
  have "0 \<le> x (state (ticks k ?p)) \<and> 0 \<le> vx (state (ticks k ?p))
         \<and> (vx (state (ticks k ?p)))\<^sup>2 + (vy (state (ticks k ?p)))\<^sup>2 \<le> V\<^sup>2
         \<and> 0 \<le> range_m (ticks k ?p)"
    using drag start(1) stable V speed
    by (intro drag_ticks_stable) (simp_all add: launch_fields new_PhysicsEngine_def)
  then show ?thesis by simp
qed

text \<open>
  Claim C4 compares the landed range with and without air resistance. Without air
  resistance and wind, the first tick after \<open>launch()\<close> computes the closed form at time
  0, which has \<open>y = 0\<close>, and advances the time by \<open>dt = 0.016\<close>, beyond the guard 0.01:
  every such flight lands in its first tick with range 0 and stays so. With air
  resistance (or wind) the first tick is an Euler step from the launch state, to
  \<open>x = v0 \<cdot> cos(angle) \<cdot> dt\<close>, \<open>y = v0 \<cdot> sin(angle) \<cdot> dt\<close>; and for a flight with air
  resistance launched forwards whose Euler steps are stable, \<open>x\<close> and \<open>range\<close> are never
  negative, whatever the number of ticks. So the range with air resistance is never less
  than the range without.
\<close>

theorem flight_without_drag_lands_at_once:
  "(\<not> airResistance q \<and> windSpeed q = 0 \<and> 0.01 < dt (physics q) \<longrightarrow>
      hasLanded (ticks (Suc n) (launch q))
      \<and> range_m (ticks (Suc n) (launch q)) = 0
      \<and> time (ticks (Suc n) (launch q)) = dt (physics q))
   \<and> (airResistance q \<or> windSpeed q \<noteq> 0 \<longrightarrow>
        x (nextState (launch q)) = v0 q * cos (angle q * pi / 180) * dt (physics q)
        \<and> y (nextState (launch q)) = v0 q * sin (angle q * pi / 180) * dt (physics q))
   \<and> (airResistance r \<and> windSpeed r = 0 \<and> 0 < mass r \<and> 0 \<le> gravity r
        \<and> physics r = new_PhysicsEngine
        \<and> 0 \<le> v0 r * cos (angle r * pi / 180) \<and> \<bar>v0 r\<bar> \<le> V
        \<and> 2 * (0.5 * 1.225 * 0.47 * (pi * (diameter r / 2)\<^sup>2) * 0.016 / mass r) * V \<le> 1
        \<and> gravity r * 0.016
              \<le> 0.5 * 1.225 * 0.47 * (pi * (diameter r / 2)\<^sup>2) * 0.016 / mass r * V\<^sup>2
        \<longrightarrow> 0 \<le> range_m (ticks k (launch r)) \<and> 0 \<le> x (state (ticks k (launch r))))"
proof -
  have land: "hasLanded (ticks (Suc n) (launch q))
      \<and> range_m (ticks (Suc n) (launch q)) = 0
      \<and> time (ticks (Suc n) (launch q)) = dt (physics q)"
    if "\<not> airResistance q" "windSpeed q = 0" "0.01 < dt (physics q)"
  proof -
    have next0: "nextState (launch q)
                  = calculateNoAirResistance (v0 q) (angle q) (gravity q) 0"
      using that by (simp add: nextState_def launch_fields)
    have first: "hasLanded (update (launch q))" "range_m (update (launch q)) = 0"
      "time (update (launch q)) = dt (physics q)"
      using that(3)
      by (simp_all add: update_active launch_fields next0 calculateNoAirResistance_def Let_def)
    then have "ticks n (update (launch q)) = update (launch q)"
      by (simp add: ticks_inactive)
    then show ?thesis using first by (simp add: ticks_Suc)
  qed
  have fly: "x (nextState (launch q)) = v0 q * cos (angle q * pi / 180) * dt (physics q)
        \<and> y (nextState (launch q)) = v0 q * sin (angle q * pi / 180) * dt (physics q)"
    if "airResistance q \<or> windSpeed q \<noteq> 0"
    using that by (auto simp: nextState_def launch_fields integrateStep_position)
  from land fly drag_flight_range_nonneg [of r V k] show ?thesis by blast
qed

theorem flight_without_drag_lands_at_once_witness:
  "hasLanded (ticks 1 (launch (new_Projectile defaultParams)))
   \<and> range_m (ticks 1 (launch (new_Projectile defaultParams))) = 0
   \<and> calculateMaxRange 15 45 9.81 = 22500 / 981
   \<and> \<not> hasLanded (update (launch (new_Projectile dragParams)))
   \<and> x (state (update (launch (new_Projectile dragParams)))) = 15 * (sqrt 2 / 2) * 0.016
   \<and> (\<forall>k. \<not> range_m (ticks k (launch (new_Projectile dragParams)))
               < range_m (ticks 1 (launch (new_Projectile defaultParams))))"
proof -
  let ?q = "new_Projectile defaultParams"
  let ?r = "new_Projectile dragParams"
  have pre: "\<not> airResistance ?q \<and> windSpeed ?q = 0 \<and> 0.01 < dt (physics ?q)"
    by (simp add: new_Projectile_fields defaultParams_def new_PhysicsEngine_def)
  have drag: "airResistance ?r \<and> windSpeed ?r = 0 \<and> 0 < mass ?r \<and> 0 \<le> gravity ?r
        \<and> physics ?r = new_PhysicsEngine
        \<and> 0 \<le> v0 ?r * cos (angle ?r * pi / 180) \<and> \<bar>v0 ?r\<bar> \<le> 20"
    by (simp add: new_Projectile_fields dragParams_def defaultParams_def cos_45)
  have small: "2 * (0.5 * 1.225 * 0.47 * (pi * (diameter ?r / 2)\<^sup>2) * 0.016 / mass ?r) * 20 \<le> 1"
    using pi_less_4
    by (simp add: new_Projectile_fields dragParams_def defaultParams_def power2_eq_square)
  have large: "gravity ?r * 0.016
              \<le> 0.5 * 1.225 * 0.47 * (pi * (diameter ?r / 2)\<^sup>2) * 0.016 / mass ?r * 20\<^sup>2"
    using pi_ge_two
    by (simp add: new_Projectile_fields dragParams_def defaultParams_def power2_eq_square)
  from flight_without_drag_lands_at_once [of ?q 0 ?r 20] pre
  have land: "hasLanded (ticks 1 (launch ?q)) \<and> range_m (ticks 1 (launch ?q)) = 0"
    by simp
  have "0 \<le> range_m (ticks k (launch ?r))" for k
    using flight_without_drag_lands_at_once [of ?q 0 ?r 20 k] drag small large by blast
  then have never: "\<forall>k. \<not> range_m (ticks k (launch ?r)) < range_m (ticks 1 (launch ?q))"
    using land by (simp add: not_less)
  have "calculateMaxRange 15 45 9.81 = 22500 / 981"
    by (simp add: calculateMaxRange_def Let_def)
  with land never show ?thesis
    by (simp add: drag_first_tick)
qed

end
